theory Spec2Isabelle
  imports Complex_Main "HOL-Library.Multiset"
begin

section \<open>Python strings and the library functions the code calls\<close>

text \<open>
  A Python \<open>str\<close> is modelled as the list of its code points, \<^typ>\<open>string\<close>; the
  character tables below are those of Python 3 for the code points 0 to 255
  (\<open>re\<close>'s \<open>\w\<close> on \<open>str\<close> patterns, \<open>str.lower\<close>, \<open>str.isspace\<close>).
\<close>

definition code_point :: "char \<Rightarrow> nat" where
  "code_point c = of_char c"

definition is_word_char :: "char \<Rightarrow> bool" where
  \<comment> \<open>\<open>\w\<close>: alphanumeric code points and the underscore\<close>
  "is_word_char c =
     (let n = code_point c in
        (48 \<le> n \<and> n \<le> 57) \<or> (65 \<le> n \<and> n \<le> 90) \<or> n = 95 \<or> (97 \<le> n \<and> n \<le> 122)
        \<or> n = 170 \<or> (178 \<le> n \<and> n \<le> 179) \<or> n = 181 \<or> (185 \<le> n \<and> n \<le> 186)
        \<or> (188 \<le> n \<and> n \<le> 190) \<or> (192 \<le> n \<and> n \<le> 214) \<or> (216 \<le> n \<and> n \<le> 246)
        \<or> 248 \<le> n)"

definition lower_char :: "char \<Rightarrow> char" where
  "lower_char c =
     (let n = code_point c in
        if (65 \<le> n \<and> n \<le> 90) \<or> (192 \<le> n \<and> n \<le> 214) \<or> (216 \<le> n \<and> n \<le> 222)
        then char_of (n + 32) else c)"

definition py_lower :: "string \<Rightarrow> string" where
  \<comment> \<open>\<open>s.lower()\<close>\<close>
  "py_lower s = map lower_char s"

definition is_space_char :: "char \<Rightarrow> bool" where
  \<comment> \<open>\<open>str.isspace\<close>, the characters \<open>str.strip()\<close> removes\<close>
  "is_space_char c =
     (let n = code_point c in
        (9 \<le> n \<and> n \<le> 13) \<or> (28 \<le> n \<and> n \<le> 32) \<or> n = 133 \<or> n = 160)"

definition py_strip :: "string \<Rightarrow> string" where
  \<comment> \<open>\<open>s.strip()\<close>\<close>
  "py_strip s = rev (dropWhile is_space_char (rev (dropWhile is_space_char s)))"

text \<open>\<open>re.findall(r"\w+", s)\<close>: the maximal runs of word characters, left to right;
  \<open>cur\<close> is the run being read.\<close>

fun findall_word_from :: "string \<Rightarrow> string \<Rightarrow> string list" where
  "findall_word_from cur [] = (if cur = [] then [] else [cur])"
| "findall_word_from cur (c # cs) =
     (if is_word_char c then findall_word_from (cur @ [c]) cs
      else (if cur = [] then [] else [cur]) @ findall_word_from [] cs)"

definition findall_word :: "string \<Rightarrow> string list" where
  "findall_word s = findall_word_from [] s"

text \<open>\<open>xs[:n]\<close> for an \<open>int\<close> \<open>n\<close>: a negative bound counts from the end.\<close>

definition py_slice_to :: "int \<Rightarrow> 'a list \<Rightarrow> 'a list" where
  "py_slice_to n xs =
     (if 0 \<le> n then take (nat n) xs else take (length xs - nat (- n)) xs)"

text \<open>The exceptions of the model; \<open>OtherException\<close> stands for any exception a
  collaborator outside these sources raises, by its message.\<close>

datatype error = AttributeError | ZeroDivisionError | UnicodeDecodeError | OtherException string

text \<open>\<open>a / b\<close> on two \<open>int\<close>s: the quotient, or \<open>ZeroDivisionError\<close>. The quotient,
  a \<open>float\<close> in Python, is the exact rational here; the scores of one search share their
  denominator, so they are ordered as their numerators are.\<close>

definition py_truediv :: "nat \<Rightarrow> nat \<Rightarrow> error + rat" where
  "py_truediv a b = (if b = 0 then Inl ZeroDivisionError else Inr (of_nat a / of_nat b))"

section \<open>JSON values and context chunks\<close>

datatype json =
    JNull
  | JBool bool
  | JNum rat
  | JStr string
  | JArr "json list"
  | JObj "(string \<times> json) list"

text \<open>Python truthiness of a loaded JSON value (\<open>if not content\<close>).\<close>

fun truthy :: "json \<Rightarrow> bool" where
  "truthy JNull = False"
| "truthy (JBool b) = b"
| "truthy (JNum r) = (r \<noteq> 0)"
| "truthy (JStr s) = (s \<noteq> [])"
| "truthy (JArr xs) = (xs \<noteq> [])"
| "truthy (JObj kv) = (kv \<noteq> [])"

text \<open>\<open>d.get(k, default)\<close> on a \<open>dict\<close> given by its items.\<close>

definition dict_get :: "(string \<times> 'v) list \<Rightarrow> string \<Rightarrow> 'v \<Rightarrow> 'v" where
  "dict_get d k dflt = (case map_of d k of Some v \<Rightarrow> v | None \<Rightarrow> dflt)"

text \<open>
  A context chunk is a \<open>dict\<close> with the keys \<open>content\<close>, \<open>source\<close> and \<open>score\<close>, each of
  which may be absent (\<open>None\<close>); \<open>'v\<close> is the type of the source label.
\<close>

record 'v chunk =
  content :: "string option"
  source :: "'v option"
  score :: "rat option"

section \<open>The local-corpus search (\<open>vortex_client._search_json_files\<close>)\<close>

text \<open>What \<open>open\<close> and \<open>json.load\<close> do on one file of the directory.\<close>

datatype load_outcome =
    RaisesOSError
  | RaisesJSONDecodeError
  | RaisesUnicodeDecodeError
  | Loads json

record json_file =
  stem :: string
  body :: load_outcome

datatype log_entry = DirNotFound | ErrorReading string

text \<open>The inner loop \<open>for chunk in chunks\<close>; \<open>acc\<close> is \<open>scored_chunks\<close>.\<close>

fun scan_chunks ::
  "string set \<Rightarrow> string \<Rightarrow> json list \<Rightarrow> (rat \<times> json chunk) list
     \<Rightarrow> error + (rat \<times> json chunk) list" where
  "scan_chunks query_tokens stm [] acc = Inr acc"
| "scan_chunks query_tokens stm (ch # chs) acc =
     (case ch of
        JObj d \<Rightarrow>
          (let cont = dict_get d ''content'' (JStr '''') in
           if \<not> truthy cont then scan_chunks query_tokens stm chs acc
           else (case cont of
              JStr c \<Rightarrow>
                (let content_tokens = set (findall_word (py_lower c));
                     overlap = card (query_tokens \<inter> content_tokens)
                 in if overlap > 0 then
                      (case py_truediv overlap (card query_tokens) of
                         Inl e \<Rightarrow> Inl e
                       | Inr sc \<Rightarrow>
                           scan_chunks query_tokens stm chs
                             (acc @ [(sc, \<lparr>content = Some c,
                                           source = Some (dict_get d ''source'' (JStr stm)),
                                           score = Some sc\<rparr>)]))
                    else scan_chunks query_tokens stm chs acc)
            | _ \<Rightarrow> Inl AttributeError))
      | _ \<Rightarrow> Inl AttributeError)"

text \<open>The outer loop \<open>for json_file in json_dir.glob(...)\<close> with its \<open>try\<close>/\<open>except\<close>:
  \<open>OSError\<close> and \<open>JSONDecodeError\<close> are caught, printed and skipped; every other
  exception leaves the function.\<close>

fun scan_files ::
  "string set \<Rightarrow> json_file list \<Rightarrow> (rat \<times> json chunk) list \<Rightarrow> log_entry list
     \<Rightarrow> log_entry list \<times> (error + (rat \<times> json chunk) list)" where
  "scan_files query_tokens [] acc lg = (lg, Inr acc)"
| "scan_files query_tokens (f # fs) acc lg =
     (case body f of
        RaisesOSError \<Rightarrow> scan_files query_tokens fs acc (lg @ [ErrorReading (stem f)])
      | RaisesJSONDecodeError \<Rightarrow> scan_files query_tokens fs acc (lg @ [ErrorReading (stem f)])
      | RaisesUnicodeDecodeError \<Rightarrow> (lg, Inl UnicodeDecodeError)
      | Loads data \<Rightarrow>
          (let chunks = (case data of JArr xs \<Rightarrow> xs | _ \<Rightarrow> [data]) in
           case scan_chunks query_tokens (stem f) chunks acc of
             Inl e \<Rightarrow> (lg, Inl e)
           | Inr acc' \<Rightarrow> scan_files query_tokens fs acc' lg))"

text \<open>
  \<open>json_dir\<close> is \<open>None\<close> when the directory does not exist, and otherwise the files
  that \<open>glob\<close> yields, in the order it yields them. The result is what was printed and
  either the exception raised or the list returned.
\<close>

definition search_json_files ::
  "string \<Rightarrow> int \<Rightarrow> json_file list option
     \<Rightarrow> log_entry list \<times> (error + json chunk list)" where
  "search_json_files query max_results json_dir =
     (case json_dir of
        None \<Rightarrow> ([DirNotFound], Inr [])
      | Some files \<Rightarrow>
          (let query_tokens = set (findall_word (py_lower query)) in
           if query_tokens = {} then ([], Inr [])
           else (case scan_files query_tokens files [] [] of
              (lg, Inl e) \<Rightarrow> (lg, Inl e)
            | (lg, Inr scored_chunks) \<Rightarrow>
                (lg, Inr (map snd (py_slice_to max_results
                                     (sort_key (\<lambda>x. - fst x) scored_chunks)))))))"

section \<open>The local-corpus search as the specification words it\<close>

text \<open>
  The specification: the query and each candidate are tokenised "into case-insensitive word
  sets", a candidate is scored by the "token-overlap ratio = |intersection| / |query tokens|",
  zero-overlap candidates are discarded, and the rest is sorted "descending by score; ties
  broken by first-encountered order (stable sort)". The definitions \<open>word_set\<close>,
  \<open>overlap_ratio\<close>, \<open>spec_kept\<close> and \<open>spec_ranked\<close> follow these words; the
  code is compared with them below.
\<close>

definition word_set :: "string \<Rightarrow> string set" where
  "word_set s = set (findall_word (py_lower s))"

definition overlap_ratio :: "string \<Rightarrow> string \<Rightarrow> rat" where
  "overlap_ratio q c = of_nat (card (word_set q \<inter> word_set c)) / of_nat (card (word_set q))"

text \<open>The records of a corpus, in the order they are met: the content (empty when the
  key is absent) and the source label (the file's stem when the key is absent).\<close>

fun record_of :: "string \<Rightarrow> json \<Rightarrow> string \<times> json" where
  "record_of stm (JObj d) =
     ((case map_of d ''content'' of Some (JStr c) \<Rightarrow> c | _ \<Rightarrow> ''''),
      dict_get d ''source'' (JStr stm))"
| "record_of stm j = ('''', JStr stm)"

definition records_of_file :: "json_file \<Rightarrow> (string \<times> json) list" where
  "records_of_file f =
     (case body f of
        Loads (JArr xs) \<Rightarrow> map (record_of (stem f)) xs
      | Loads j \<Rightarrow> [record_of (stem f) j]
      | _ \<Rightarrow> [])"

definition corpus_records :: "json_file list \<Rightarrow> (string \<times> json) list" where
  "corpus_records files = concat (map records_of_file files)"

text \<open>A well-formed record is an object whose \<open>content\<close>, when present, is a string;
  a well-formed file loads to one such object or to an array of them.\<close>

fun well_formed_record :: "json \<Rightarrow> bool" where
  "well_formed_record (JObj d) =
     (case map_of d ''content'' of None \<Rightarrow> True | Some (JStr c) \<Rightarrow> True | Some _ \<Rightarrow> False)"
| "well_formed_record j = False"

definition well_formed_file :: "json_file \<Rightarrow> bool" where
  "well_formed_file f =
     (case body f of
        Loads (JArr xs) \<Rightarrow> list_all well_formed_record xs
      | Loads j \<Rightarrow> well_formed_record j
      | _ \<Rightarrow> False)"

definition spec_chunk :: "string \<Rightarrow> string \<times> json \<Rightarrow> json chunk" where
  "spec_chunk q r =
     \<lparr>content = Some (fst r), source = Some (snd r), score = Some (overlap_ratio q (fst r))\<rparr>"

definition spec_kept :: "string \<Rightarrow> (string \<times> json) list \<Rightarrow> json chunk list" where
  "spec_kept q recs =
     map (spec_chunk q) (filter (\<lambda>r. word_set q \<inter> word_set (fst r) \<noteq> {}) recs)"

definition spec_ranked :: "string \<Rightarrow> (string \<times> json) list \<Rightarrow> json chunk list" where
  "spec_ranked q recs = sort_key (\<lambda>c. - the (score c)) (spec_kept q recs)"

text \<open>Concrete corpora: the record of the specification's example, a small library of
  two files, and a file that holds the JSON text \<open>[1]\<close>.\<close>

definition doc1 :: "string \<Rightarrow> json_file" where
  "doc1 stm = \<lparr>stem = stm,
               body = Loads (JObj [(''content'', JStr ''alpha beta''), (''source'', JStr ''Doc1'')])\<rparr>"

definition lib1 :: json_file where
  "lib1 = \<lparr>stem = ''civil'',
           body = Loads (JArr [JObj [(''content'', JStr ''Land lease term''), (''source'', JStr ''CCC 540'')],
                               JObj [(''content'', JStr ''Marriage registration'')],
                               JObj [(''source'', JStr ''empty'')]])\<rparr>"

definition lib2 :: json_file where
  "lib2 = \<lparr>stem = ''cases'',
           body = Loads (JObj [(''content'', JStr ''LEASE of land: term, renewal''),
                               (''source'', JStr ''Decision 1234/2565'')])\<rparr>"

definition bad_shape :: json_file where
  "bad_shape = \<lparr>stem = ''bad'', body = Loads (JArr [JNum 1])\<rparr>"

definition punctuation_only :: string where
  "punctuation_only = ''?! ... --''"

section \<open>The Retrieval Merge Layer (\<open>rag/retriever.py\<close>)\<close>

text \<open>
  \<open>retrieve_context\<close> awaits \<open>asyncio.gather(search_vortex(query), search_notion(query))\<close>
  and returns \<open>vortex_results + notion_results\<close>. The two adapters are given by what they
  return, or raise, for a query; an exception of either leaves \<open>gather\<close> and the function.
\<close>

definition retrieve_context ::
  "(string \<Rightarrow> error + 'c list) \<Rightarrow> (string \<Rightarrow> error + 'c list) \<Rightarrow> string \<Rightarrow> error + 'c list" where
  "retrieve_context search_vortex search_notion query =
     (case search_vortex query of
        Inl e \<Rightarrow> Inl e
      | Inr vortex_results \<Rightarrow>
          (case search_notion query of
             Inl e \<Rightarrow> Inl e
           | Inr notion_results \<Rightarrow> Inr (vortex_results @ notion_results)))"

section \<open>The Prompt Composer (\<open>rag/prompts.py\<close>)\<close>

text \<open>The two templates, line by line; \<open>THAI_LEGAL_SYSTEM_PROMPT context\<close> is
  \<open>THAI_LEGAL_SYSTEM_PROMPT.format(context=context)\<close>.\<close>

definition NL :: string where
  "NL = [CHR 0x0A]"

definition THAI_LEGAL_SYSTEM_PROMPT :: "string \<Rightarrow> string" where
  \<open>THAI_LEGAL_SYSTEM_PROMPT context =
     ''You are a Thai legal expert assistant for thailawonline.com. '' @
     ''You provide accurate, well-cited answers about Thai law based on retrieved legal documents.'' @ NL @
     NL @
     ''**Instructions:**'' @ NL @
     ''- Answer based primarily on the retrieved legal documents provided below.'' @ NL @
     ''- Cite specific law sections (e.g., "Civil and Commercial Code Section 420") and Supreme Court case numbers (e.g., "Supreme Court Decision No. 1234/2565").'' @ NL @
     ''- If the retrieved documents do not contain sufficient information to answer, clearly state this and provide general guidance.'' @ NL @
     ''- Respond in the same language the user uses (Thai or English).'' @ NL @
     ''- Be precise and professional. Avoid speculation beyond what the legal texts support.'' @ NL @
     ''- When multiple legal provisions apply, explain how they interact.'' @ NL @
     NL @
     ''**Retrieved Legal Documents:**'' @ NL @
     context @ NL\<close>

definition NO_CONTEXT_SYSTEM_PROMPT :: string where
  \<open>NO_CONTEXT_SYSTEM_PROMPT =
     ''You are a Thai legal expert assistant for thailawonline.com. '' @
     ''You provide accurate answers about Thai law.'' @ NL @
     NL @
     ''**Instructions:**'' @ NL @
     ''- Answer questions about Thai law to the best of your knowledge.'' @ NL @
     ''- Cite specific law sections and court case numbers when possible.'' @ NL @
     ''- Respond in the same language the user uses (Thai or English).'' @ NL @
     ''- Be precise and professional.'' @ NL @
     ''- Clearly indicate when you are providing general guidance rather than citing specific provisions.'' @ NL @
     NL @
     ''Note: No specific legal documents were retrieved for this query. '' @
     ''Answer based on your general knowledge of Thai law.'' @ NL\<close>

text \<open>\<open>str(i)\<close> for a natural number \<open>i\<close>, and \<open>sep.join(parts)\<close>.\<close>

fun str_of_nat :: "nat \<Rightarrow> string" where
  "str_of_nat n =
     (if n < 10 then [char_of (48 + n)]
      else str_of_nat (n div 10) @ [char_of (48 + n mod 10)])"

fun py_join :: "string \<Rightarrow> string list \<Rightarrow> string" where
  "py_join sep [] = []"
| "py_join sep [x] = x"
| "py_join sep (x # y # ys) = x @ sep @ py_join sep (y # ys)"

text \<open>The loop \<open>for i, chunk in enumerate(context_chunks, 1)\<close>: one block
  \<open>[Document i] (Source: source)\<close>, a newline and the content per chunk, with the
  counter \<open>i\<close> passed along.\<close>

definition document_block :: "nat \<Rightarrow> string chunk \<Rightarrow> string" where
  "document_block i chunk =
     (let src = (case source chunk of Some s \<Rightarrow> s | None \<Rightarrow> ''Unknown'');
          cont = (case content chunk of Some c \<Rightarrow> c | None \<Rightarrow> '''')
      in ''[Document '' @ str_of_nat i @ ''] (Source: '' @ src @ '')'' @ NL @ cont)"

fun context_parts_from :: "nat \<Rightarrow> string chunk list \<Rightarrow> string list" where
  "context_parts_from i [] = []"
| "context_parts_from i (chunk # rest) = document_block i chunk # context_parts_from (Suc i) rest"

definition context_parts :: "string chunk list \<Rightarrow> string list" where
  "context_parts context_chunks = context_parts_from 1 context_chunks"

definition build_system_prompt :: "string chunk list \<Rightarrow> string" where
  "build_system_prompt context_chunks =
     (if context_chunks = [] then NO_CONTEXT_SYSTEM_PROMPT
      else (let context_text = py_join (NL @ NL @ ''---'' @ NL @ NL) (context_parts context_chunks)
            in THAI_LEGAL_SYSTEM_PROMPT context_text))"

text \<open>\<open>retrieve_and_build_messages\<close>: a message is the pair of its role and content.\<close>

definition retrieve_and_build_messages ::
  "(string \<Rightarrow> error + string chunk list) \<Rightarrow> (string \<Rightarrow> error + string chunk list) \<Rightarrow> string
     \<Rightarrow> error + ((string \<times> string) list \<times> string chunk list)" where
  "retrieve_and_build_messages search_vortex search_notion query =
     (case retrieve_context search_vortex search_notion query of
        Inl e \<Rightarrow> Inl e
      | Inr context_chunks \<Rightarrow>
          (let system_prompt = build_system_prompt context_chunks;
               messages = [(''system'', system_prompt), (''user'', query)]
           in Inr (messages, context_chunks)))"

text \<open>Concrete chunks: a primary result of low score, a supplementary one of higher score,
  and a chunk without source and content.\<close>

definition primary_chunk :: "string chunk" where
  "primary_chunk = \<lparr>content = Some ''Section 420: wrongful acts'', source = Some ''CCC 420'',
                     score = Some (1 / 4)\<rparr>"

definition supplementary_chunk :: "string chunk" where
  "supplementary_chunk = \<lparr>content = Some ''Note on torts'', source = Some ''Notion: Torts'',
                           score = Some 9\<rparr>"

definition bare_chunk :: "string chunk" where
  "bare_chunk = \<lparr>content = None, source = None, score = None\<rparr>"

section \<open>The API-key check (\<open>wordpress/auth.py\<close>)\<close>

text \<open>What a request ends in when it is not answered: \<open>HTTPException(status_code, detail)\<close>
  raised by the handler, the 422 response FastAPI gives when the body does not validate
  against \<open>ChatRequest\<close>, or an exception the handler does not catch.\<close>

datatype http_error =
    HTTPException nat string
  | RequestValidationError
  | Unhandled error

text \<open>The status an error is answered with: FastAPI answers a body that does not validate
  with 422 and an exception the handler does not catch with 500.\<close>

fun status_code :: "http_error \<Rightarrow> nat" where
  "status_code (HTTPException code detail) = code"
| "status_code RequestValidationError = 422"
| "status_code (Unhandled e) = 500"

text \<open>
  \<open>validate_api_key\<close> reads the constant \<open>WP_API_KEY\<close> (\<open>os.getenv("WP_API_KEY", "")\<close>, so
  unset is the empty string) and the request's \<open>X-API-Key\<close> header (\<open>None\<close> when missing),
  and nothing else; it returns \<open>None\<close> or raises.
\<close>

definition validate_api_key :: "string \<Rightarrow> string option \<Rightarrow> http_error + unit" where
  "validate_api_key configured_key x_api_key_header =
     (if configured_key = [] then Inr ()
      else (let api_key = x_api_key_header in
            if (api_key = None \<or> api_key = Some []) \<or> api_key \<noteq> Some configured_key
            then Inl (HTTPException 401 ''Invalid or missing API key'')
            else Inr ()))"

section \<open>The chat endpoint (\<open>main.wordpress_chat\<close>)\<close>

record chat_request =
  message :: string
  session_id :: string
  x_api_key :: "string option"

text \<open>\<open>ChatRequest\<close>: \<open>message\<close> has \<open>min_length=1, max_length=5000\<close> and \<open>session_id\<close> has
  \<open>max_length=200\<close>.\<close>

definition request_valid :: "chat_request \<Rightarrow> bool" where
  "request_valid req =
     (1 \<le> length (message req) \<and> length (message req) \<le> 5000 \<and> length (session_id req) \<le> 200)"

text \<open>\<open>SourceCitation\<close>; its field \<open>source\<close> is \<open>cited_source\<close> here.\<close>

record source_citation =
  cited_source :: string
  excerpt :: string

text \<open>What the endpoint reads of the council's result: the models of \<open>stage1_results\<close>,
  \<open>stage3_result.get("response")\<close>, \<open>stage3_result.get("model")\<close> and
  \<open>metadata.get("aggregate_rankings")\<close>.\<close>

record council_result =
  stage1_models :: "string list"
  stage3_response :: "string option"
  stage3_model :: "string option"
  metadata_aggregate_rankings :: "(string \<times> rat) list option"

record chat_response =
  answer :: string
  sources :: "source_citation list"
  response_session_id :: string
  models_used :: "string list"
  chairman :: string
  aggregate_rankings :: "(string \<times> rat) list"

text \<open>
  The collaborators of one request: the configured key, the value \<open>uuid.uuid4()\<close> gives,
  whether \<open>storage.get_conversation\<close> finds the session, the two adapters and the council.
\<close>

record env =
  WP_API_KEY :: string
  uuid4 :: string
  get_conversation :: "string \<Rightarrow> bool"
  search_vortex :: "string \<Rightarrow> error + string chunk list"
  search_notion :: "string \<Rightarrow> error + string chunk list"
  run_full_council :: "string \<Rightarrow> (string \<times> string) list \<Rightarrow> error + council_result"

text \<open>What the handler does to the world, in order.\<close>

datatype effect =
    GetConversation string
  | CreateConversation string
  | AddUserMessage string string
  | Retrieve string
  | RunCouncil string
  | AddAssistantMessage string

text \<open>One \<open>SourceCitation(source=chunk.get("source", "Unknown"),
  excerpt=chunk.get("content", "")[:200])\<close>.\<close>

definition build_citation :: "string chunk \<Rightarrow> source_citation" where
  "build_citation chunk =
     \<lparr>cited_source = (case source chunk of Some s \<Rightarrow> s | None \<Rightarrow> ''Unknown''),
      excerpt = take 200 (case content chunk of Some c \<Rightarrow> c | None \<Rightarrow> [])\<rparr>"

text \<open>The handler, after FastAPI has validated the body: the effects it had and the
  response or the error it ends in.\<close>

definition wordpress_chat :: "env \<Rightarrow> chat_request \<Rightarrow> effect list \<times> (http_error + chat_response)" where
  "wordpress_chat ev req =
     (if \<not> request_valid req then ([], Inl RequestValidationError)
      else (case validate_api_key (WP_API_KEY ev) (x_api_key req) of
         Inl e \<Rightarrow> ([], Inl e)
       | Inr u \<Rightarrow>
          (let user_message = py_strip (message req) in
           if user_message = [] then ([], Inl (HTTPException 400 ''Message cannot be empty''))
           else
            (let sid = (if session_id req \<noteq> [] then session_id req else uuid4 ev);
                 stored = [GetConversation sid]
                          @ (if get_conversation ev sid then [] else [CreateConversation sid])
                          @ [AddUserMessage sid user_message]
             in case retrieve_and_build_messages (search_vortex ev) (search_notion ev) user_message of
                  Inl e \<Rightarrow> (stored @ [Retrieve user_message], Inl (Unhandled e))
                | Inr (messages, context_chunks) \<Rightarrow>
                   (case run_full_council ev user_message messages of
                      Inl e \<Rightarrow>
                        (stored @ [Retrieve user_message, RunCouncil user_message],
                         Inl (Unhandled e))
                    | Inr r \<Rightarrow>
                        (let final_answer = (case stage3_response r of Some a \<Rightarrow> a | None \<Rightarrow> []);
                             srcs = map build_citation context_chunks
                         in (stored @ [Retrieve user_message, RunCouncil user_message,
                                       AddAssistantMessage sid],
                             Inr \<lparr>answer = final_answer,
                                  sources = srcs,
                                  response_session_id = sid,
                                  models_used = stage1_models r,
                                  chairman = (case stage3_model r of Some m \<Rightarrow> m | None \<Rightarrow> []),
                                  aggregate_rankings =
                                    (case metadata_aggregate_rankings r of
                                       Some a \<Rightarrow> a | None \<Rightarrow> [])\<rparr>)))))))"

text \<open>Concrete requests and collaborators.\<close>

definition council_ok :: council_result where
  "council_ok = \<lparr>stage1_models = [''m1'', ''m2''], stage3_response = Some ''Final answer'',
                  stage3_model = Some ''chair'', metadata_aggregate_rankings = None\<rparr>"

definition long_chunk :: "string chunk" where
  "long_chunk = \<lparr>content = Some (replicate 250 (CHR ''x'')), source = None, score = None\<rparr>"

definition open_env :: env where
  "open_env = \<lparr>WP_API_KEY = [], uuid4 = ''u-1'', get_conversation = (\<lambda>s. False),
                search_vortex = (\<lambda>q. Inr [primary_chunk, long_chunk]),
                search_notion = (\<lambda>q. Inr [supplementary_chunk]),
                run_full_council = (\<lambda>q m. Inr council_ok)\<rparr>"

definition keyed_env :: env where
  "keyed_env = open_env\<lparr>WP_API_KEY := ''secret''\<rparr>"

definition blank_request :: chat_request where
  "blank_request = \<lparr>message = ''   '', session_id = [], x_api_key = None\<rparr>"

definition empty_request :: chat_request where
  "empty_request = \<lparr>message = [], session_id = [], x_api_key = None\<rparr>"

definition question_request :: chat_request where
  "question_request = \<lparr>message = '' What is section 420? '', session_id = ''s-7'',
                        x_api_key = None\<rparr>"

section \<open>Rank aggregation\<close>

text \<open>
  Modelled from the spec: \<open>council.calculate_aggregate_rankings\<close> is imported by
  \<open>main.py\<close> but \<open>council.py\<close> is not among the sources, so the aggregation follows
  section 4.6 of the specification: "rank position k (1-indexed, best = 1) contributes
  (N - k + 1) points to the de-anonymized model at that position, where N is the count of
  ranked labels in that ranking. Sum points per model across all rankings; sort descending
  by total; ties broken by model's roster order". The label-to-model mapping is the list of
  its entries in the order they were assigned, which is the roster order of the models
  that answered; a ranking is the judge and its labels from best to worst.
\<close>

record stage2_ranking =
  judge :: string
  ranked_labels :: "string list"

record aggregate_ranking =
  model :: string
  total :: nat

text \<open>Modelled from the spec: the points one ranking gives a model (the scoring of the
  missing \<open>council.calculate_aggregate_rankings\<close>); position \<open>k\<close> of \<open>N\<close> labels
  contributes \<open>N - k + 1\<close> to the model its label stands for.\<close>

definition ranking_points :: "(string \<times> string) list \<Rightarrow> string list \<Rightarrow> string \<Rightarrow> nat" where
  "ranking_points label_to_model labels m =
     (let N = length labels in
      sum_list (map (\<lambda>k. if map_of label_to_model (labels ! (k - 1)) = Some m
                          then N - k + 1 else 0) [1..<Suc N]))"

text \<open>Modelled from the spec: "Sum points per model across all rankings" (the missing
  \<open>council.calculate_aggregate_rankings\<close>).\<close>

definition total_points :: "stage2_ranking list \<Rightarrow> (string \<times> string) list \<Rightarrow> string \<Rightarrow> nat" where
  "total_points stage2 label_to_model m =
     sum_list (map (\<lambda>r. ranking_points label_to_model (ranked_labels r) m) stage2)"

text \<open>Modelled from the spec: one entry per model of the mapping, in roster order, before
  the sort (the missing \<open>council.calculate_aggregate_rankings\<close>).\<close>

definition roster_entries ::
  "stage2_ranking list \<Rightarrow> (string \<times> string) list \<Rightarrow> aggregate_ranking list" where
  "roster_entries stage2 label_to_model =
     map (\<lambda>m. \<lparr>model = m, total = total_points stage2 label_to_model m\<rparr>)
         (remdups (map snd label_to_model))"

text \<open>Modelled from the spec: the missing \<open>council.calculate_aggregate_rankings\<close>;
  "sort descending by total; ties broken by model's roster order (stable ...)".\<close>

definition aggregate ::
  "stage2_ranking list \<Rightarrow> (string \<times> string) list \<Rightarrow> aggregate_ranking list" where
  "aggregate stage2 label_to_model =
     sort_key (\<lambda>e. - int (total e)) (roster_entries stage2 label_to_model)"

text \<open>The end-to-end scenario of the specification: two models, each judge ranks its own
  answer first; and a third judge who prefers the second answer.\<close>

definition two_labels :: "(string \<times> string) list" where
  "two_labels = [(''Response A'', ''M1''), (''Response B'', ''M2'')]"

definition symmetric_rankings :: "stage2_ranking list" where
  "symmetric_rankings =
     [\<lparr>judge = ''M1'', ranked_labels = [''Response A'', ''Response B'']\<rparr>,
      \<lparr>judge = ''M2'', ranked_labels = [''Response B'', ''Response A'']\<rparr>]"

definition third_ranking :: stage2_ranking where
  "third_ranking = \<lparr>judge = ''M3'', ranked_labels = [''Response B'', ''Response A'']\<rparr>"

section \<open>Properties of the local-corpus search\<close>

lemma finite_word_set: "finite (word_set s)"
  by (simp add: word_set_def)

lemma scan_chunks_no_zero_div:
  "query_tokens \<noteq> {} \<Longrightarrow> finite query_tokens \<Longrightarrow>
   scan_chunks query_tokens stm chs acc \<noteq> Inl ZeroDivisionError"
proof (induction chs arbitrary: acc)
  case Nil
  then show ?case by simp
next
  case (Cons ch chs)
  then have "card query_tokens \<noteq> 0" by simp
  with Cons show ?case
    by (auto simp: Let_def py_truediv_def split: json.splits)
qed

lemma scan_files_no_zero_div:
  "query_tokens \<noteq> {} \<Longrightarrow> finite query_tokens \<Longrightarrow>
   snd (scan_files query_tokens fs acc lg) \<noteq> Inl ZeroDivisionError"
proof (induction fs arbitrary: acc lg)
  case Nil
  then show ?case by simp
next
  case (Cons f fs)
  show ?case
  proof (cases "body f")
    case (Loads data)
    let ?chunks = "case data of JArr xs \<Rightarrow> xs | _ \<Rightarrow> [data]"
    show ?thesis
    proof (cases "scan_chunks query_tokens (stem f) ?chunks acc")
      case (Inl e)
      with scan_chunks_no_zero_div[OF Cons.prems, of "stem f" ?chunks acc]
      have "e \<noteq> ZeroDivisionError" by auto
      with Loads Inl show ?thesis by (simp add: Let_def)
    next
      case (Inr acc')
      with Loads Cons show ?thesis by (simp add: Let_def)
    qed
  qed (use Cons in auto)
qed

text \<open>
  Claim C9. When the lowercased query holds no word token, the search returns the empty
  list whatever the directory holds (nothing is printed for a file and no file can make it
  raise, so no file was scanned); and the division by the number of query tokens is guarded:
  the search never ends in \<open>ZeroDivisionError\<close>, for any query, bound and directory.
\<close>

theorem no_tokens_no_scan:
  "(findall_word (py_lower query) = [] \<longrightarrow>
      search_json_files query max_results (Some files) = ([], Inr [])
      \<and> snd (search_json_files query max_results None) = Inr [])
   \<and> snd (search_json_files query max_results json_dir) \<noteq> Inl ZeroDivisionError"
proof -
  let ?qt = "set (findall_word (py_lower query))"
  have "snd (search_json_files query max_results json_dir) \<noteq> Inl ZeroDivisionError"
  proof (cases json_dir)
    case None
    then show ?thesis by (simp add: search_json_files_def)
  next
    case (Some fs)
    show ?thesis
    proof (cases "?qt = {}")
      case True
      with Some show ?thesis by (simp add: search_json_files_def)
    next
      case False
      then have "snd (scan_files ?qt fs [] []) \<noteq> Inl ZeroDivisionError"
        by (intro scan_files_no_zero_div) simp_all
      with Some False show ?thesis
        by (auto simp: search_json_files_def Let_def split: prod.splits sum.splits)
    qed
  qed
  then show ?thesis by (simp add: search_json_files_def)
qed

theorem no_tokens_no_scan_witness:
  "findall_word (py_lower punctuation_only) = []
   \<and> search_json_files punctuation_only 10 (Some [bad_shape, lib1]) = ([], Inr [])
   \<and> snd (search_json_files punctuation_only 10 None) = Inr []"
proof -
  have h: "findall_word (py_lower punctuation_only) = []"
    by code_simp
  from no_tokens_no_scan[of punctuation_only 10 "[bad_shape, lib1]" None] h
  show ?thesis by simp
qed

lemma scan_chunks_well_formed:
  assumes "list_all well_formed_record chs"
  shows "scan_chunks (word_set q) stm chs acc =
     Inr (acc @ map (\<lambda>r. (overlap_ratio q (fst r), spec_chunk q r))
                  (filter (\<lambda>r. word_set q \<inter> word_set (fst r) \<noteq> {}) (map (record_of stm) chs)))"
  using assms
proof (induction chs arbitrary: acc)
  case Nil
  then show ?case by simp
next
  case (Cons ch chs)
  then obtain d where ch: "ch = JObj d" by (cases ch) auto
  have fin: "finite (word_set q \<inter> A)" for A by (simp add: finite_word_set)
  have empty: "word_set [] = {}" by (simp add: word_set_def py_lower_def findall_word_def)
  from Cons.prems ch consider (absent) "map_of d ''content'' = None"
    | (str) c where "map_of d ''content'' = Some (JStr c)"
    by (auto split: option.splits json.splits)
  then show ?case
  proof cases
    case absent
    with Cons ch empty show ?thesis by (simp add: dict_get_def)
  next
    case (str c)
    show ?thesis
    proof (cases "word_set q \<inter> word_set c = {}")
      case True
      with Cons ch str empty show ?thesis
        by (cases "c = []") (simp_all add: dict_get_def Let_def flip: word_set_def)
    next
      case False
      then have ne: "word_set q \<noteq> {}" "c \<noteq> []" using empty by auto
      then have "card (word_set q) \<noteq> 0" "card (word_set q \<inter> word_set c) > 0"
        using False by (simp_all add: finite_word_set card_gt_0_iff)
      with Cons ch str False ne show ?thesis
        by (simp add: dict_get_def Let_def py_truediv_def overlap_ratio_def spec_chunk_def
              flip: word_set_def)
    qed
  qed
qed

lemma scan_files_well_formed:
  assumes "list_all well_formed_file fs"
  shows "scan_files (word_set q) fs acc lg =
     (lg, Inr (acc @ map (\<lambda>r. (overlap_ratio q (fst r), spec_chunk q r))
                  (filter (\<lambda>r. word_set q \<inter> word_set (fst r) \<noteq> {}) (corpus_records fs))))"
  using assms
proof (induction fs arbitrary: acc)
  case Nil
  then show ?case by (simp add: corpus_records_def)
next
  case (Cons f fs)
  from Cons.prems obtain data where data: "body f = Loads data"
    by (auto simp: well_formed_file_def split: load_outcome.splits)
  let ?chunks = "case data of JArr xs \<Rightarrow> xs | _ \<Rightarrow> [data]"
  have wf: "list_all well_formed_record ?chunks"
    using Cons.prems data by (auto simp: well_formed_file_def split: json.splits)
  have recs: "records_of_file f = map (record_of (stem f)) ?chunks"
    using data by (auto simp: records_of_file_def split: json.splits)
  from Cons show ?case
    by (simp add: data Let_def scan_chunks_well_formed[OF wf] recs corpus_records_def)
qed

lemma insort_key_map:
  "insort_key f (g x) (map g xs) = map g (insort_key (\<lambda>y. f (g y)) x xs)"
  by (induction xs) simp_all

lemma sort_key_map: "sort_key f (map g xs) = map g (sort_key (\<lambda>y. f (g y)) xs)"
  by (induction xs) (simp_all add: insort_key_map)


lemma py_slice_to_map: "map g (py_slice_to n xs) = py_slice_to n (map g xs)"
  by (simp add: py_slice_to_def take_map)

lemma search_well_formed:
  assumes "list_all well_formed_file files"
  shows "search_json_files q n (Some files) =
           ([], Inr (py_slice_to n (spec_ranked q (corpus_records files))))"
proof (cases "word_set q = {}")
  case True
  then show ?thesis
    by (simp add: search_json_files_def spec_ranked_def spec_kept_def py_slice_to_def
          flip: word_set_def)
next
  case False
  let ?kept = "filter (\<lambda>r. word_set q \<inter> word_set (fst r) \<noteq> {}) (corpus_records files)"
  have "map snd (py_slice_to n (sort_key (\<lambda>x. - fst x)
            (map (\<lambda>r. (overlap_ratio q (fst r), spec_chunk q r)) ?kept)))
        = py_slice_to n (map (spec_chunk q) (sort_key (\<lambda>r. - overlap_ratio q (fst r)) ?kept))"
    by (simp add: py_slice_to_map sort_key_map comp_def)
  also have "\<dots> = py_slice_to n (spec_ranked q (corpus_records files))"
    by (simp add: spec_ranked_def spec_kept_def sort_key_map spec_chunk_def)
  finally show ?thesis
    using False
    by (simp add: search_json_files_def scan_files_well_formed[OF assms] flip: word_set_def)
qed

lemma spec_ranked_descending:
  "sorted_wrt (\<lambda>a b. the (score b) \<le> the (score a)) (spec_ranked q recs)"
proof -
  have "sorted (map (\<lambda>c. - the (score c)) (spec_ranked q recs))"
    by (simp add: spec_ranked_def)
  then show ?thesis by (simp add: sorted_map)
qed

lemma spec_ranked_stable:
  "filter (\<lambda>c. the (score c) = s) (spec_ranked q recs)
     = filter (\<lambda>c. the (score c) = s) (spec_kept q recs)"
proof -
  have "filter (\<lambda>c. - the (score c) = - s) (spec_ranked q recs)
          = filter (\<lambda>c. - the (score c) = - s) (spec_kept q recs)"
    unfolding spec_ranked_def by (rule sort_key_stable)
  then show ?thesis by simp
qed

lemma corpus_doc1: "corpus_records [doc1 stm] = [(''alpha beta'', JStr ''Doc1'')]"
  by (simp add: corpus_records_def records_of_file_def doc1_def dict_get_def)

lemma well_formed_doc1: "list_all well_formed_file [doc1 stm]"
  by (simp add: well_formed_file_def doc1_def)

lemma ranked_alpha_gamma:
  "spec_ranked ''alpha gamma'' [(''alpha beta'', JStr ''Doc1'')]
     = [\<lparr>content = Some ''alpha beta'', source = Some (JStr ''Doc1''), score = Some (1 / 2)\<rparr>]"
  by code_simp

lemma ranked_zzz: "spec_ranked ''zzz'' [(''alpha beta'', JStr ''Doc1'')] = []"
  by code_simp

text \<open>
  Claim C2. On a corpus of well-formed records and a bound \<open>max_results \<ge> 0\<close>, the search
  prints nothing and returns the first \<open>max_results\<close> chunks of \<open>spec_ranked\<close>: the records
  whose word set meets the query's, each scored |intersection| / |query tokens|, sorted by
  score descending (second conjunct) with ties in first-encountered order (third conjunct:
  the chunks of any one score come in the order the corpus has them). For the single record
  with content "alpha beta", the query "alpha gamma" yields that record with score 1/2 and
  the query "zzz" yields the empty list.
\<close>

theorem local_search_refines_spec:
  "(list_all well_formed_file files \<and> 0 \<le> max_results \<longrightarrow>
      search_json_files query max_results (Some files)
        = ([], Inr (take (nat max_results) (spec_ranked query (corpus_records files)))))
   \<and> sorted_wrt (\<lambda>a b. the (score b) \<le> the (score a)) (spec_ranked query recs)
   \<and> filter (\<lambda>c. the (score c) = s) (spec_ranked query recs)
        = filter (\<lambda>c. the (score c) = s) (spec_kept query recs)
   \<and> (0 < max_results \<longrightarrow>
        snd (search_json_files ''alpha gamma'' max_results (Some [doc1 stm]))
          = Inr [\<lparr>content = Some ''alpha beta'', source = Some (JStr ''Doc1''),
                  score = Some (1 / 2)\<rparr>])
   \<and> snd (search_json_files ''zzz'' max_results (Some [doc1 stm])) = Inr []"
proof -
  have general: "search_json_files query max_results (Some files)
        = ([], Inr (take (nat max_results) (spec_ranked query (corpus_records files))))"
    if "list_all well_formed_file files" "0 \<le> max_results"
    using search_well_formed[OF that(1), of query max_results] that(2)
    by (simp add: py_slice_to_def)
  have ex1: "snd (search_json_files ''alpha gamma'' max_results (Some [doc1 stm]))
          = Inr [\<lparr>content = Some ''alpha beta'', source = Some (JStr ''Doc1''),
                  score = Some (1 / 2)\<rparr>]" if "0 < max_results"
  proof -
    from that have "take (nat max_results) [x] = [x]" for x :: "json chunk"
      by (cases "nat max_results") simp_all
    with that show ?thesis
      by (simp add: search_well_formed[OF well_formed_doc1] corpus_doc1 ranked_alpha_gamma
            py_slice_to_def)
  qed
  have ex2: "snd (search_json_files ''zzz'' max_results (Some [doc1 stm])) = Inr []"
    by (simp add: search_well_formed[OF well_formed_doc1] corpus_doc1 ranked_zzz py_slice_to_def)
  from general spec_ranked_descending spec_ranked_stable ex1 ex2 show ?thesis
    by blast
qed

theorem local_search_refines_spec_witness:
  "search_json_files ''land lease renewal'' 1 (Some [lib1, lib2])
     = ([], Inr [\<lparr>content = Some ''LEASE of land: term, renewal'',
                   source = Some (JStr ''Decision 1234/2565''), score = Some 1\<rparr>])
   \<and> search_json_files ''land lease renewal'' 5 (Some [lib1, lib2])
     = ([], Inr [\<lparr>content = Some ''LEASE of land: term, renewal'',
                   source = Some (JStr ''Decision 1234/2565''), score = Some 1\<rparr>,
                 \<lparr>content = Some ''Land lease term'',
                   source = Some (JStr ''CCC 540''), score = Some (2 / 3)\<rparr>])"
proof -
  have wf: "list_all well_formed_file [lib1, lib2]"
    by (simp add: well_formed_file_def lib1_def lib2_def)
  have ranked: "spec_ranked ''land lease renewal'' (corpus_records [lib1, lib2])
     = [\<lparr>content = Some ''LEASE of land: term, renewal'',
                   source = Some (JStr ''Decision 1234/2565''), score = Some 1\<rparr>,
                 \<lparr>content = Some ''Land lease term'',
                   source = Some (JStr ''CCC 540''), score = Some (2 / 3)\<rparr>]"
    by code_simp
  from local_search_refines_spec[of "[lib1, lib2]" 1 "''land lease renewal''"] wf
  have one: "search_json_files ''land lease renewal'' 1 (Some [lib1, lib2])
        = ([], Inr (take (nat 1) (spec_ranked ''land lease renewal'' (corpus_records [lib1, lib2]))))"
    by simp
  from local_search_refines_spec[of "[lib1, lib2]" 5 "''land lease renewal''"] wf
  have five: "search_json_files ''land lease renewal'' 5 (Some [lib1, lib2])
        = ([], Inr (take (nat 5) (spec_ranked ''land lease renewal'' (corpus_records [lib1, lib2]))))"
    by simp
  from one five show ?thesis by (simp add: ranked)
qed

text \<open>What the \<open>except\<close> clause does achieve: a file that cannot be opened or parsed is
  skipped, with one line printed for it, and does not change what the scan returns.\<close>

lemma unreadable_files_skipped:
  "snd (scan_files query_tokens fs acc lg)
     = snd (scan_files query_tokens
              (filter (\<lambda>f. body f \<noteq> RaisesOSError \<and> body f \<noteq> RaisesJSONDecodeError) fs) acc lg')"
proof (induction fs arbitrary: acc lg lg')
  case Nil
  then show ?case by simp
next
  case (Cons f fs)
  show ?case
  proof (cases "body f")
    case (Loads data)
    then show ?thesis
      using Cons.IH by (simp add: Let_def split: sum.splits)
  qed (use Cons.IH in simp_all)
qed

lemma unreadable_files_logged:
  "scan_files query_tokens fs acc lg = (lg', Inr scored) \<Longrightarrow>
   lg' = lg @ map (\<lambda>f. ErrorReading (stem f))
               (filter (\<lambda>f. body f = RaisesOSError \<or> body f = RaisesJSONDecodeError) fs)"
proof (induction fs arbitrary: acc lg)
  case Nil
  then show ?case by simp
next
  case (Cons f fs)
  show ?case
  proof (cases "body f")
    case (Loads data)
    with Cons.prems Cons.IH show ?thesis
      by (auto simp: Let_def split: sum.splits)
  next
    case RaisesOSError
    with Cons.prems
    have "scan_files query_tokens fs acc (lg @ [ErrorReading (stem f)]) = (lg', Inr scored)"
      by simp
    from Cons.IH[OF this] RaisesOSError show ?thesis by simp
  next
    case RaisesJSONDecodeError
    with Cons.prems
    have "scan_files query_tokens fs acc (lg @ [ErrorReading (stem f)]) = (lg', Inr scored)"
      by simp
    from Cons.IH[OF this] RaisesJSONDecodeError show ?thesis by simp
  next
    case RaisesUnicodeDecodeError
    with Cons.prems show ?thesis by simp
  qed
qed

text \<open>
  Claim C6. The claim fails on the code: a file that loads to a value of another shape is
  not skipped. With the well-formed file \<open>good\<close> and a file whose JSON text is \<open>[1]\<close>,
  \<open>chunk.get\<close> raises \<open>AttributeError\<close>, which the \<open>except (JSONDecodeError, OSError)\<close>
  clause does not catch: the search raises, prints nothing, and the result of the
  well-formed record, which the search returns without the second file, is lost.
\<close>

theorem wrong_shape_raises:
  "search_json_files ''alpha'' 10 (Some [doc1 ''good'', bad_shape]) = ([], Inl AttributeError)
   \<and> search_json_files ''alpha'' 10 (Some [doc1 ''good''])
       = ([], Inr [\<lparr>content = Some ''alpha beta'', source = Some (JStr ''Doc1''),
                     score = Some 1\<rparr>])"
  by code_simp

lemma context_parts_from_nth:
  "i < length cs \<Longrightarrow> context_parts_from k cs ! i = document_block (k + i) (cs ! i)"
proof (induction cs arbitrary: k i)
  case Nil
  then show ?case by simp
next
  case (Cons c cs)
  then show ?case by (cases i) simp_all
qed

lemma length_context_parts_from: "length (context_parts_from k cs) = length cs"
  by (induction cs arbitrary: k) simp_all

lemma context_parts_from_map:
  "context_parts_from k cs = map (\<lambda>i. document_block (k + i) (cs ! i)) [0..<length cs]"
  by (rule nth_equalityI) (simp_all add: length_context_parts_from context_parts_from_nth)

section \<open>Properties of the merge layer and the prompt composer\<close>

text \<open>
  Claim C3. Whenever the primary (Vortex) adapter returns \<open>vortex_results\<close> and the
  supplementary (Notion) adapter returns \<open>notion_results\<close>, \<open>retrieve_context\<close> returns
  exactly the first list followed by the second, each in its own order: nothing is
  re-scored, re-sorted or removed, whatever the scores are.
\<close>

theorem merge_primary_then_supplementary:
  "vortex query = Inr vortex_results \<Longrightarrow> notion query = Inr notion_results \<Longrightarrow>
   retrieve_context vortex notion query = Inr (vortex_results @ notion_results)"
  by (simp add: retrieve_context_def)

theorem merge_primary_then_supplementary_witness:
  "the (score primary_chunk) < the (score supplementary_chunk)
   \<and> retrieve_context (\<lambda>q. Inr [primary_chunk]) (\<lambda>q. Inr [supplementary_chunk, primary_chunk]) ''tort''
       = Inr [primary_chunk, supplementary_chunk, primary_chunk]"
  using merge_primary_then_supplementary
          [of "\<lambda>q. Inr [primary_chunk]" "''tort''" "[primary_chunk]"
              "\<lambda>q. Inr [supplementary_chunk, primary_chunk]" "[supplementary_chunk, primary_chunk]"]
  by (simp add: primary_chunk_def supplementary_chunk_def)

lemma length_context_parts: "length (context_parts chunks) = length chunks"
  by (simp add: context_parts_def length_context_parts_from)

text \<open>The text \<open>build_system_prompt\<close> returns, written out: the instruction template of
  \<open>prompts.py\<close> as a literal, the blocks joined by the separator, a final newline; every
  block of the list occurs in it. \<open>str_of_nat\<close> writes a number in decimal digits without a
  leading zero.\<close>

lemma py_join_hd_tl:
  "xs \<noteq> [] \<Longrightarrow> py_join sep xs = hd xs @ concat (map (\<lambda>b. sep @ b) (tl xs))"
  by (induction sep xs rule: py_join.induct) simp_all

lemma py_join_embeds:
  "i < length xs \<Longrightarrow> \<exists>pre post. py_join sep xs = pre @ xs ! i @ post"
proof (induction sep xs arbitrary: i rule: py_join.induct)
  case (1 sep)
  then show ?case by simp
next
  case (2 sep x)
  then have "py_join sep [x] = [] @ [x] ! i @ []" by simp
  then show ?case by blast
next
  case (3 sep x y ys)
  show ?case
  proof (cases i)
    case 0
    then have "py_join sep (x # y # ys) = [] @ (x # y # ys) ! i @ (sep @ py_join sep (y # ys))"
      by simp
    then show ?thesis by blast
  next
    case (Suc j)
    with "3.prems" have "j < length (y # ys)" by simp
    from "3.IH"[OF this] obtain pre post where
      "py_join sep (y # ys) = pre @ (y # ys) ! j @ post" by blast
    with Suc have "py_join sep (x # y # ys) = (x @ sep @ pre) @ (x # y # ys) ! i @ post"
      by simp
    then show ?thesis by blast
  qed
qed

lemma context_parts_text:
  "context_parts chunks
     = map (\<lambda>i. ''[Document '' @ str_of_nat (i + 1) @ ''] (Source: ''
              @ (case source (chunks ! i) of Some s \<Rightarrow> s | None \<Rightarrow> ''Unknown'')
              @ '')\<newline>''
              @ (case content (chunks ! i) of Some c \<Rightarrow> c | None \<Rightarrow> [])) [0..<length chunks]"
  unfolding context_parts_def context_parts_from_map
  by (simp add: document_block_def Let_def NL_def del: str_of_nat.simps)

lemma build_system_prompt_text:
  \<open>chunks \<noteq> [] \<Longrightarrow>
   build_system_prompt chunks =
     (''You are a Thai legal expert assistant for thailawonline.com. You provide accurate, well-cited answers about Thai law based on retrieved legal documents.\<newline>'' @
     ''\<newline>'' @
     ''**Instructions:**\<newline>'' @
     ''- Answer based primarily on the retrieved legal documents provided below.\<newline>'' @
     ''- Cite specific law sections (e.g., "Civil and Commercial Code Section 420") and Supreme Court case numbers (e.g., "Supreme Court Decision No. 1234/2565").\<newline>'' @
     ''- If the retrieved documents do not contain sufficient information to answer, clearly state this and provide general guidance.\<newline>'' @
     ''- Respond in the same language the user uses (Thai or English).\<newline>'' @
     ''- Be precise and professional. Avoid speculation beyond what the legal texts support.\<newline>'' @
     ''- When multiple legal provisions apply, explain how they interact.\<newline>'' @
     ''\<newline>'' @
     ''**Retrieved Legal Documents:**\<newline>'')
     @ py_join ''\<newline>\<newline>---\<newline>\<newline>'' (context_parts chunks) @ ''\<newline>''\<close>
  by (simp add: build_system_prompt_def THAI_LEGAL_SYSTEM_PROMPT_def NL_def)

lemma build_system_prompt_embeds:
  assumes "i < length chunks"
  shows "\<exists>pre post. build_system_prompt chunks = pre @ ''[Document '' @ str_of_nat (i + 1) @ ''] (Source: ''
              @ (case source (chunks ! i) of Some s \<Rightarrow> s | None \<Rightarrow> ''Unknown'')
              @ '')\<newline>''
              @ (case content (chunks ! i) of Some c \<Rightarrow> c | None \<Rightarrow> []) @ post"
proof -
  from assms have ne: "chunks \<noteq> []" by auto
  from assms have "i < length (context_parts chunks)" by (simp add: length_context_parts)
  from py_join_embeds[OF this, of "''\<newline>\<newline>---\<newline>\<newline>''"]
  obtain pre post where
    j: "py_join ''\<newline>\<newline>---\<newline>\<newline>'' (context_parts chunks) = pre @ context_parts chunks ! i @ post"
    by blast
  have nth: "context_parts chunks ! i = ''[Document '' @ str_of_nat (i + 1) @ ''] (Source: ''
              @ (case source (chunks ! i) of Some s \<Rightarrow> s | None \<Rightarrow> ''Unknown'')
              @ '')\<newline>''
              @ (case content (chunks ! i) of Some c \<Rightarrow> c | None \<Rightarrow> [])"
    using assms by (simp add: context_parts_text del: str_of_nat.simps)
  from build_system_prompt_text[OF ne] obtain header where
    "build_system_prompt chunks = header @ py_join ''\<newline>\<newline>---\<newline>\<newline>'' (context_parts chunks) @ ''\<newline>''"
    by blast
  with j nth
  have "build_system_prompt chunks = (header @ pre) @ ''[Document '' @ str_of_nat (i + 1) @ ''] (Source: ''
              @ (case source (chunks ! i) of Some s \<Rightarrow> s | None \<Rightarrow> ''Unknown'')
              @ '')\<newline>''
              @ (case content (chunks ! i) of Some c \<Rightarrow> c | None \<Rightarrow> []) @ (post @ ''\<newline>'')"
    by (simp del: str_of_nat.simps)
  then show ?thesis by blast
qed

lemma decode_str_of_nat:
  "foldl (\<lambda>a c. 10 * a + (of_char c - 48)) 0 (str_of_nat n) = n"
proof (induction n rule: str_of_nat.induct)
  case (1 n)
  show ?case
  proof (cases "n < 10")
    case True
    then show ?thesis by (subst str_of_nat.simps) simp
  next
    case False
    have "n mod 10 < 10" by simp
    then have "(48 + n mod 10) mod 256 = 48 + n mod 10" by simp
    with False "1.IH" show ?thesis by (subst str_of_nat.simps) simp
  qed
qed

lemma digits_str_of_nat:
  "list_all (\<lambda>c. 48 \<le> (of_char c :: nat) \<and> (of_char c :: nat) \<le> 57) (str_of_nat n)"
proof (induction n rule: str_of_nat.induct)
  case (1 n)
  show ?case
  proof (cases "n < 10")
    case True
    then show ?thesis by (subst str_of_nat.simps) simp
  next
    case False
    have "n mod 10 < 10" by simp
    then have "(48 + n mod 10) mod 256 = 48 + n mod 10" by simp
    with False "1.IH" show ?thesis by (subst str_of_nat.simps) simp
  qed
qed

lemma str_of_nat_not_empty: "str_of_nat n \<noteq> []"
  by (subst str_of_nat.simps) simp

lemma no_leading_zero_str_of_nat:
  "0 < n \<Longrightarrow> (of_char (hd (str_of_nat n)) :: nat) \<noteq> 48"
proof (induction n rule: str_of_nat.induct)
  case (1 n)
  show ?case
  proof (cases "n < 10")
    case True
    with "1.prems" show ?thesis by (subst str_of_nat.simps) simp
  next
    case False
    then have "0 < n div 10" by simp
    with False "1.IH" have "(of_char (hd (str_of_nat (n div 10))) :: nat) \<noteq> 48" by simp
    with False show ?thesis
      by (subst str_of_nat.simps) (simp add: str_of_nat_not_empty del: str_of_nat.simps)
  qed
qed

lemma collect_below: "(\<And>i. i < n \<Longrightarrow> P i) \<Longrightarrow> {i. i < n \<and> P i} = {..<n}"
  by auto

lemma embedded_blocks_all:
  "{i. i < length chunks
        \<and> (\<exists>pre post. build_system_prompt chunks = pre @ ''[Document '' @ str_of_nat (i + 1) @ ''] (Source: ''
              @ (case source (chunks ! i) of Some s \<Rightarrow> s | None \<Rightarrow> ''Unknown'')
              @ '')\<newline>''
              @ (case content (chunks ! i) of Some c \<Rightarrow> c | None \<Rightarrow> []) @ post)}
     = {..<length chunks}"
  by (rule collect_below) (rule build_system_prompt_embeds)

lemma sixteenth_block:
  "\<exists>pre post. build_system_prompt (replicate 16 bare_chunk)
                    = pre @ ''[Document 16] (Source: Unknown)\<newline>'' @ post"
proof -
  have s16: "str_of_nat (15 + 1) = ''16''" by code_simp
  have lt: "(15::nat) < length (replicate 16 bare_chunk)" by simp
  have nth: "replicate 16 bare_chunk ! 15 = bare_chunk" by simp
  have src: "source bare_chunk = None" and cont: "content bare_chunk = None"
    by (simp_all add: bare_chunk_def)
  from build_system_prompt_embeds[OF lt] show ?thesis
    unfolding nth src cont s16 by simp
qed

text \<open>
  Claim C4, as stated, fails: the Prompt Composer has no budget. A chunk is embedded when
  its numbered block occurs in the text \<open>build_system_prompt\<close> returns; no bound holds
  for the number of embedded chunks, and the text for sixteen chunks holds the block
  numbered 16.
\<close>

theorem composer_has_no_budget:
  "\<not> (\<exists>budget. \<forall>chunks.
         card {i. i < length chunks
                \<and> (\<exists>pre post. build_system_prompt chunks = pre @ ''[Document '' @ str_of_nat (i + 1) @ ''] (Source: ''
              @ (case source (chunks ! i) of Some s \<Rightarrow> s | None \<Rightarrow> ''Unknown'')
              @ '')\<newline>''
              @ (case content (chunks ! i) of Some c \<Rightarrow> c | None \<Rightarrow> []) @ post)} \<le> budget)
   \<and> (\<exists>pre post. build_system_prompt (replicate 16 bare_chunk)
                    = pre @ ''[Document 16] (Source: Unknown)\<newline>'' @ post)"
proof -
  have "\<exists>chunks. \<not> card {i. i < length chunks
                \<and> (\<exists>pre post. build_system_prompt chunks = pre @ ''[Document '' @ str_of_nat (i + 1) @ ''] (Source: ''
              @ (case source (chunks ! i) of Some s \<Rightarrow> s | None \<Rightarrow> ''Unknown'')
              @ '')\<newline>''
              @ (case content (chunks ! i) of Some c \<Rightarrow> c | None \<Rightarrow> []) @ post)} \<le> budget"
    for budget
  proof (rule exI[of _ "replicate (Suc budget) bare_chunk"])
    show "\<not> card {i. i < length (replicate (Suc budget) bare_chunk)
                \<and> (\<exists>pre post. build_system_prompt (replicate (Suc budget) bare_chunk) = pre @ ''[Document '' @ str_of_nat (i + 1) @ ''] (Source: ''
              @ (case source (replicate (Suc budget) bare_chunk ! i) of Some s \<Rightarrow> s | None \<Rightarrow> ''Unknown'')
              @ '')\<newline>''
              @ (case content (replicate (Suc budget) bare_chunk ! i) of Some c \<Rightarrow> c | None \<Rightarrow> []) @ post)} \<le> budget"
      unfolding embedded_blocks_all by simp
  qed
  then have "\<not> (\<exists>budget. \<forall>chunks.
         card {i. i < length chunks
                \<and> (\<exists>pre post. build_system_prompt chunks = pre @ ''[Document '' @ str_of_nat (i + 1) @ ''] (Source: ''
              @ (case source (chunks ! i) of Some s \<Rightarrow> s | None \<Rightarrow> ''Unknown'')
              @ '')\<newline>''
              @ (case content (chunks ! i) of Some c \<Rightarrow> c | None \<Rightarrow> []) @ post)} \<le> budget)"
    by blast
  with sixteenth_block show ?thesis by (rule conjI[rotated])
qed

text \<open>
  Claim C4, amended. Neither layer truncates. \<open>retrieve_context\<close> returns the whole
  concatenation of the two adapter results. The text \<open>build_system_prompt\<close> returns holds
  the numbered block of every chunk of the list it is given: it is one fixed header, then
  the blocks of all the chunks, the first as it is and each further one after the
  separator, then a newline.
\<close>

theorem no_truncation_in_merge_or_composer:
  "(vortex query = Inr vortex_results \<and> notion query = Inr notion_results \<longrightarrow>
      retrieve_context vortex notion query = Inr (vortex_results @ notion_results))
   \<and> (\<forall>i. i < length chunks \<longrightarrow>
         (\<exists>pre post. build_system_prompt chunks = pre @ ''[Document '' @ str_of_nat (i + 1) @ ''] (Source: ''
              @ (case source (chunks ! i) of Some s \<Rightarrow> s | None \<Rightarrow> ''Unknown'')
              @ '')\<newline>''
              @ (case content (chunks ! i) of Some c \<Rightarrow> c | None \<Rightarrow> []) @ post))
   \<and> (\<exists>header. \<forall>cs. cs \<noteq> [] \<longrightarrow>
         build_system_prompt cs
           = header
             @ hd (map (\<lambda>i. ''[Document '' @ str_of_nat (i + 1) @ ''] (Source: ''
              @ (case source (cs ! i) of Some s \<Rightarrow> s | None \<Rightarrow> ''Unknown'')
              @ '')\<newline>''
              @ (case content (cs ! i) of Some c \<Rightarrow> c | None \<Rightarrow> [])) [0..<length cs])
             @ concat (map (\<lambda>b. ''\<newline>\<newline>---\<newline>\<newline>'' @ b)
                         (tl (map (\<lambda>i. ''[Document '' @ str_of_nat (i + 1) @ ''] (Source: ''
              @ (case source (cs ! i) of Some s \<Rightarrow> s | None \<Rightarrow> ''Unknown'')
              @ '')\<newline>''
              @ (case content (cs ! i) of Some c \<Rightarrow> c | None \<Rightarrow> [])) [0..<length cs])))
             @ ''\<newline>'')"
proof -
  have exact: \<open>build_system_prompt cs
           = (''You are a Thai legal expert assistant for thailawonline.com. You provide accurate, well-cited answers about Thai law based on retrieved legal documents.\<newline>'' @
              ''\<newline>'' @
              ''**Instructions:**\<newline>'' @
              ''- Answer based primarily on the retrieved legal documents provided below.\<newline>'' @
              ''- Cite specific law sections (e.g., "Civil and Commercial Code Section 420") and Supreme Court case numbers (e.g., "Supreme Court Decision No. 1234/2565").\<newline>'' @
              ''- If the retrieved documents do not contain sufficient information to answer, clearly state this and provide general guidance.\<newline>'' @
              ''- Respond in the same language the user uses (Thai or English).\<newline>'' @
              ''- Be precise and professional. Avoid speculation beyond what the legal texts support.\<newline>'' @
              ''- When multiple legal provisions apply, explain how they interact.\<newline>'' @
              ''\<newline>'' @
              ''**Retrieved Legal Documents:**\<newline>'')
             @ hd (map (\<lambda>i. ''[Document '' @ str_of_nat (i + 1) @ ''] (Source: ''
              @ (case source (cs ! i) of Some s \<Rightarrow> s | None \<Rightarrow> ''Unknown'')
              @ '')\<newline>''
              @ (case content (cs ! i) of Some c \<Rightarrow> c | None \<Rightarrow> [])) [0..<length cs])
             @ concat (map (\<lambda>b. ''\<newline>\<newline>---\<newline>\<newline>'' @ b)
                         (tl (map (\<lambda>i. ''[Document '' @ str_of_nat (i + 1) @ ''] (Source: ''
              @ (case source (cs ! i) of Some s \<Rightarrow> s | None \<Rightarrow> ''Unknown'')
              @ '')\<newline>''
              @ (case content (cs ! i) of Some c \<Rightarrow> c | None \<Rightarrow> [])) [0..<length cs])))
             @ ''\<newline>''\<close> if "cs \<noteq> []" for cs
  proof -
    from that have "context_parts cs \<noteq> []"
      using length_context_parts[of cs] by auto
    from py_join_hd_tl[OF this] build_system_prompt_text[OF that] show ?thesis
      by (simp add: context_parts_text del: str_of_nat.simps)
  qed
  then have "\<exists>header. \<forall>cs. cs \<noteq> [] \<longrightarrow>
         build_system_prompt cs
           = header
             @ hd (map (\<lambda>i. ''[Document '' @ str_of_nat (i + 1) @ ''] (Source: ''
              @ (case source (cs ! i) of Some s \<Rightarrow> s | None \<Rightarrow> ''Unknown'')
              @ '')\<newline>''
              @ (case content (cs ! i) of Some c \<Rightarrow> c | None \<Rightarrow> [])) [0..<length cs])
             @ concat (map (\<lambda>b. ''\<newline>\<newline>---\<newline>\<newline>'' @ b)
                         (tl (map (\<lambda>i. ''[Document '' @ str_of_nat (i + 1) @ ''] (Source: ''
              @ (case source (cs ! i) of Some s \<Rightarrow> s | None \<Rightarrow> ''Unknown'')
              @ '')\<newline>''
              @ (case content (cs ! i) of Some c \<Rightarrow> c | None \<Rightarrow> [])) [0..<length cs])))
             @ ''\<newline>''"
    by blast
  with build_system_prompt_embeds[of _ chunks] show ?thesis
    by (simp add: retrieve_context_def del: str_of_nat.simps)
qed

theorem no_truncation_in_merge_or_composer_witness:
  "retrieve_context (\<lambda>q. Inr (replicate 10 primary_chunk))
       (\<lambda>q. Inr (replicate 5 supplementary_chunk)) ''tort''
     = Inr (replicate 10 primary_chunk @ replicate 5 supplementary_chunk)
   \<and> (\<exists>pre post. build_system_prompt (replicate 10 primary_chunk @ replicate 5 supplementary_chunk)
          = pre @ ''[Document 15] (Source: Notion: Torts)\<newline>Note on torts'' @ post)"
proof -
  let ?m = "replicate 10 primary_chunk @ replicate 5 supplementary_chunk"
  note inst = no_truncation_in_merge_or_composer
         [of "\<lambda>q. Inr (replicate 10 primary_chunk)" "''tort''" "replicate 10 primary_chunk"
             "\<lambda>q. Inr (replicate 5 supplementary_chunk)" "replicate 5 supplementary_chunk" ?m]
  from inst have merge: "retrieve_context (\<lambda>q. Inr (replicate 10 primary_chunk))
       (\<lambda>q. Inr (replicate 5 supplementary_chunk)) ''tort'' = Inr ?m"
    by blast
  have s15: "str_of_nat (14 + 1) = ''15''" by code_simp
  have lt: "(14::nat) < length ?m" by simp
  have nth: "?m ! 14 = supplementary_chunk" by (simp add: nth_append)
  have src: "source supplementary_chunk = Some ''Notion: Torts''"
    and cont: "content supplementary_chunk = Some ''Note on torts''"
    by (simp_all add: supplementary_chunk_def)
  from inst lt have "\<exists>pre post. build_system_prompt ?m = pre @ ''[Document '' @ str_of_nat (14 + 1) @ ''] (Source: ''
              @ (case source (?m ! 14) of Some s \<Rightarrow> s | None \<Rightarrow> ''Unknown'')
              @ '')\<newline>''
              @ (case content (?m ! 14) of Some c \<Rightarrow> c | None \<Rightarrow> []) @ post"
    by blast
  then have "\<exists>pre post. build_system_prompt ?m
          = pre @ ''[Document 15] (Source: Notion: Torts)\<newline>Note on torts'' @ post"
    unfolding nth src cont s15 by simp
  with merge show ?thesis by (rule conjI)
qed

text \<open>
  Claim C5. \<open>build_system_prompt\<close> is a function of the chunk list alone. For the empty
  list it returns the fixed fallback prompt, whose text tells the model that no documents
  were retrieved and to answer from general knowledge. For every non-empty list it returns
  the fixed instruction template (written out below as in \<open>prompts.py\<close>), then the blocks,
  then a newline: block \<open>i\<close> (counting from 0) is \<open>[Document i+1] (Source: label)\<close>, a
  newline and the content, with \<open>Unknown\<close> for an absent label, and every block after the
  first follows the separator of two newlines, \<open>---\<close> and two newlines. The number is
  written in decimal: its digits decode to it and it has no leading zero. Equal lists give
  equal prompts.
\<close>

theorem build_system_prompt_shape:
  \<open>build_system_prompt [] =
     ''You are a Thai legal expert assistant for thailawonline.com. You provide accurate answers about Thai law.\<newline>'' @
     ''\<newline>'' @
     ''**Instructions:**\<newline>'' @
     ''- Answer questions about Thai law to the best of your knowledge.\<newline>'' @
     ''- Cite specific law sections and court case numbers when possible.\<newline>'' @
     ''- Respond in the same language the user uses (Thai or English).\<newline>'' @
     ''- Be precise and professional.\<newline>'' @
     ''- Clearly indicate when you are providing general guidance rather than citing specific provisions.\<newline>'' @
     ''\<newline>'' @
     ''Note: No specific legal documents were retrieved for this query. Answer based on your general knowledge of Thai law.\<newline>''
   \<and> (chunks \<noteq> [] \<longrightarrow>
        build_system_prompt chunks =
          ''You are a Thai legal expert assistant for thailawonline.com. You provide accurate, well-cited answers about Thai law based on retrieved legal documents.\<newline>'' @
          ''\<newline>'' @
          ''**Instructions:**\<newline>'' @
          ''- Answer based primarily on the retrieved legal documents provided below.\<newline>'' @
          ''- Cite specific law sections (e.g., "Civil and Commercial Code Section 420") and Supreme Court case numbers (e.g., "Supreme Court Decision No. 1234/2565").\<newline>'' @
          ''- If the retrieved documents do not contain sufficient information to answer, clearly state this and provide general guidance.\<newline>'' @
          ''- Respond in the same language the user uses (Thai or English).\<newline>'' @
          ''- Be precise and professional. Avoid speculation beyond what the legal texts support.\<newline>'' @
          ''- When multiple legal provisions apply, explain how they interact.\<newline>'' @
          ''\<newline>'' @
          ''**Retrieved Legal Documents:**\<newline>''
          @ hd (map (\<lambda>i. ''[Document '' @ str_of_nat (i + 1) @ ''] (Source: ''
              @ (case source (chunks ! i) of Some s \<Rightarrow> s | None \<Rightarrow> ''Unknown'')
              @ '')\<newline>''
              @ (case content (chunks ! i) of Some c \<Rightarrow> c | None \<Rightarrow> [])) [0..<length chunks])
          @ concat (map (\<lambda>b. ''\<newline>\<newline>---\<newline>\<newline>'' @ b)
                      (tl (map (\<lambda>i. ''[Document '' @ str_of_nat (i + 1) @ ''] (Source: ''
              @ (case source (chunks ! i) of Some s \<Rightarrow> s | None \<Rightarrow> ''Unknown'')
              @ '')\<newline>''
              @ (case content (chunks ! i) of Some c \<Rightarrow> c | None \<Rightarrow> [])) [0..<length chunks])))
          @ ''\<newline>'')
   \<and> foldl (\<lambda>a c. 10 * a + (of_char c - 48)) 0 (str_of_nat n) = n
   \<and> list_all (\<lambda>c. 48 \<le> (of_char c :: nat) \<and> (of_char c :: nat) \<le> 57) (str_of_nat n)
   \<and> (0 < n \<longrightarrow> (of_char (hd (str_of_nat n)) :: nat) \<noteq> 48)
   \<and> (chunks = chunks' \<longrightarrow> build_system_prompt chunks = build_system_prompt chunks')\<close>
proof -
  have fallback: \<open>build_system_prompt [] =
     ''You are a Thai legal expert assistant for thailawonline.com. You provide accurate answers about Thai law.\<newline>'' @
     ''\<newline>'' @
     ''**Instructions:**\<newline>'' @
     ''- Answer questions about Thai law to the best of your knowledge.\<newline>'' @
     ''- Cite specific law sections and court case numbers when possible.\<newline>'' @
     ''- Respond in the same language the user uses (Thai or English).\<newline>'' @
     ''- Be precise and professional.\<newline>'' @
     ''- Clearly indicate when you are providing general guidance rather than citing specific provisions.\<newline>'' @
     ''\<newline>'' @
     ''Note: No specific legal documents were retrieved for this query. Answer based on your general knowledge of Thai law.\<newline>''\<close>
    by (simp add: build_system_prompt_def NO_CONTEXT_SYSTEM_PROMPT_def NL_def)
  have shape: \<open>build_system_prompt chunks =
          ''You are a Thai legal expert assistant for thailawonline.com. You provide accurate, well-cited answers about Thai law based on retrieved legal documents.\<newline>'' @
          ''\<newline>'' @
          ''**Instructions:**\<newline>'' @
          ''- Answer based primarily on the retrieved legal documents provided below.\<newline>'' @
          ''- Cite specific law sections (e.g., "Civil and Commercial Code Section 420") and Supreme Court case numbers (e.g., "Supreme Court Decision No. 1234/2565").\<newline>'' @
          ''- If the retrieved documents do not contain sufficient information to answer, clearly state this and provide general guidance.\<newline>'' @
          ''- Respond in the same language the user uses (Thai or English).\<newline>'' @
          ''- Be precise and professional. Avoid speculation beyond what the legal texts support.\<newline>'' @
          ''- When multiple legal provisions apply, explain how they interact.\<newline>'' @
          ''\<newline>'' @
          ''**Retrieved Legal Documents:**\<newline>''
          @ hd (map (\<lambda>i. ''[Document '' @ str_of_nat (i + 1) @ ''] (Source: ''
              @ (case source (chunks ! i) of Some s \<Rightarrow> s | None \<Rightarrow> ''Unknown'')
              @ '')\<newline>''
              @ (case content (chunks ! i) of Some c \<Rightarrow> c | None \<Rightarrow> [])) [0..<length chunks])
          @ concat (map (\<lambda>b. ''\<newline>\<newline>---\<newline>\<newline>'' @ b)
                      (tl (map (\<lambda>i. ''[Document '' @ str_of_nat (i + 1) @ ''] (Source: ''
              @ (case source (chunks ! i) of Some s \<Rightarrow> s | None \<Rightarrow> ''Unknown'')
              @ '')\<newline>''
              @ (case content (chunks ! i) of Some c \<Rightarrow> c | None \<Rightarrow> [])) [0..<length chunks])))
          @ ''\<newline>''\<close> if "chunks \<noteq> []"
  proof -
    from that have "context_parts chunks \<noteq> []"
      using length_context_parts[of chunks] by auto
    from py_join_hd_tl[OF this] build_system_prompt_text[OF that] show ?thesis
      by (simp add: context_parts_text del: str_of_nat.simps)
  qed
  from fallback shape decode_str_of_nat[of n] digits_str_of_nat[of n]
       no_leading_zero_str_of_nat[of n]
  show ?thesis by blast
qed

theorem build_system_prompt_shape_witness:
  \<open>build_system_prompt [primary_chunk, bare_chunk] =
     ''You are a Thai legal expert assistant for thailawonline.com. You provide accurate, well-cited answers about Thai law based on retrieved legal documents.\<newline>'' @
     ''\<newline>'' @
     ''**Instructions:**\<newline>'' @
     ''- Answer based primarily on the retrieved legal documents provided below.\<newline>'' @
     ''- Cite specific law sections (e.g., "Civil and Commercial Code Section 420") and Supreme Court case numbers (e.g., "Supreme Court Decision No. 1234/2565").\<newline>'' @
     ''- If the retrieved documents do not contain sufficient information to answer, clearly state this and provide general guidance.\<newline>'' @
     ''- Respond in the same language the user uses (Thai or English).\<newline>'' @
     ''- Be precise and professional. Avoid speculation beyond what the legal texts support.\<newline>'' @
     ''- When multiple legal provisions apply, explain how they interact.\<newline>'' @
     ''\<newline>'' @
     ''**Retrieved Legal Documents:**\<newline>'' @
     ''[Document 1] (Source: CCC 420)\<newline>'' @
     ''Section 420: wrongful acts\<newline>'' @
     ''\<newline>'' @
     ''---\<newline>'' @
     ''\<newline>'' @
     ''[Document 2] (Source: Unknown)\<newline>'' @
     ''\<newline>''
   \<and> str_of_nat 12 = ''12''
   \<and> foldl (\<lambda>a c. 10 * a + (of_char c - 48)) 0 (str_of_nat 12) = (12::nat)\<close>
proof -
  let ?cs = "[primary_chunk, bare_chunk]"
  have ne: "?cs \<noteq> []" by simp
  have idx: "[0..<length ?cs] = [0, 1]" by (simp add: upt_rec)
  have s1: "str_of_nat (0 + 1) = ''1''" and s2: "str_of_nat (1 + 1) = ''2''"
    and s12: "str_of_nat 12 = ''12''"
    by code_simp+
  have n0: "?cs ! 0 = primary_chunk" and n1: "?cs ! 1 = bare_chunk" by simp_all
  have fields: "source primary_chunk = Some ''CCC 420''"
    "content primary_chunk = Some ''Section 420: wrongful acts''"
    "source bare_chunk = None" "content bare_chunk = None"
    by (simp_all add: primary_chunk_def bare_chunk_def)
  note inst = build_system_prompt_shape[of ?cs 12 ?cs]
  from ne have \<open>build_system_prompt ?cs =
          ''You are a Thai legal expert assistant for thailawonline.com. You provide accurate, well-cited answers about Thai law based on retrieved legal documents.\<newline>'' @
     ''\<newline>'' @
     ''**Instructions:**\<newline>'' @
     ''- Answer based primarily on the retrieved legal documents provided below.\<newline>'' @
     ''- Cite specific law sections (e.g., "Civil and Commercial Code Section 420") and Supreme Court case numbers (e.g., "Supreme Court Decision No. 1234/2565").\<newline>'' @
     ''- If the retrieved documents do not contain sufficient information to answer, clearly state this and provide general guidance.\<newline>'' @
     ''- Respond in the same language the user uses (Thai or English).\<newline>'' @
     ''- Be precise and professional. Avoid speculation beyond what the legal texts support.\<newline>'' @
     ''- When multiple legal provisions apply, explain how they interact.\<newline>'' @
     ''\<newline>'' @
     ''**Retrieved Legal Documents:**\<newline>''
          @ hd (map (\<lambda>i. ''[Document '' @ str_of_nat (i + 1) @ ''] (Source: ''
              @ (case source (?cs ! i) of Some s \<Rightarrow> s | None \<Rightarrow> ''Unknown'')
              @ '')\<newline>''
              @ (case content (?cs ! i) of Some c \<Rightarrow> c | None \<Rightarrow> [])) [0..<length ?cs])
          @ concat (map (\<lambda>b. ''\<newline>\<newline>---\<newline>\<newline>'' @ b)
                      (tl (map (\<lambda>i. ''[Document '' @ str_of_nat (i + 1) @ ''] (Source: ''
              @ (case source (?cs ! i) of Some s \<Rightarrow> s | None \<Rightarrow> ''Unknown'')
              @ '')\<newline>''
              @ (case content (?cs ! i) of Some c \<Rightarrow> c | None \<Rightarrow> [])) [0..<length ?cs])))
          @ ''\<newline>''\<close>
    by (rule inst[THEN conjunct2, THEN conjunct1, THEN mp])
  then have first: \<open>build_system_prompt ?cs =
     ''You are a Thai legal expert assistant for thailawonline.com. You provide accurate, well-cited answers about Thai law based on retrieved legal documents.\<newline>'' @
     ''\<newline>'' @
     ''**Instructions:**\<newline>'' @
     ''- Answer based primarily on the retrieved legal documents provided below.\<newline>'' @
     ''- Cite specific law sections (e.g., "Civil and Commercial Code Section 420") and Supreme Court case numbers (e.g., "Supreme Court Decision No. 1234/2565").\<newline>'' @
     ''- If the retrieved documents do not contain sufficient information to answer, clearly state this and provide general guidance.\<newline>'' @
     ''- Respond in the same language the user uses (Thai or English).\<newline>'' @
     ''- Be precise and professional. Avoid speculation beyond what the legal texts support.\<newline>'' @
     ''- When multiple legal provisions apply, explain how they interact.\<newline>'' @
     ''\<newline>'' @
     ''**Retrieved Legal Documents:**\<newline>'' @
     ''[Document 1] (Source: CCC 420)\<newline>'' @
     ''Section 420: wrongful acts\<newline>'' @
     ''\<newline>'' @
     ''---\<newline>'' @
     ''\<newline>'' @
     ''[Document 2] (Source: Unknown)\<newline>'' @
     ''\<newline>''\<close>
    unfolding idx list.map list.sel concat.simps n0 n1 fields s1 s2 option.case
    by simp
  have "foldl (\<lambda>a c. 10 * a + (of_char c - 48)) 0 (str_of_nat 12) = (12::nat)"
    by (rule inst[THEN conjunct2, THEN conjunct2, THEN conjunct1])
  with first s12 show ?thesis by (intro conjI)
qed

section \<open>Properties of the API-key check and the chat endpoint\<close>

text \<open>
  Claim C10. \<open>validate_api_key\<close> raises the 401 error exactly when a non-empty key is
  configured and the header is missing or differs from it; otherwise it returns, in
  particular always when no key is configured. It is a function of the configured key and
  the header only and returns no state: a passing validation has nothing to change.
\<close>

theorem validate_api_key_401_iff:
  "(validate_api_key configured_key header = Inl (HTTPException 401 ''Invalid or missing API key''))
      = (configured_key \<noteq> [] \<and> (header = None \<or> header \<noteq> Some configured_key))
   \<and> (validate_api_key configured_key header = Inr ())
      = (configured_key = [] \<or> header = Some configured_key)
   \<and> (configured_key = [] \<longrightarrow> validate_api_key configured_key header = Inr ())"
  by (auto simp: validate_api_key_def Let_def)

theorem validate_api_key_401_iff_witness:
  "validate_api_key ''secret'' None = Inl (HTTPException 401 ''Invalid or missing API key'')
   \<and> validate_api_key ''secret'' (Some ''guess'') = Inl (HTTPException 401 ''Invalid or missing API key'')
   \<and> validate_api_key ''secret'' (Some ''secret'') = Inr ()
   \<and> validate_api_key [] None = Inr ()"
  using validate_api_key_401_iff[of "''secret''" None]
        validate_api_key_401_iff[of "''secret''" "Some ''guess''"]
        validate_api_key_401_iff[of "''secret''" "Some ''secret''"]
        validate_api_key_401_iff[of "[]" None]
  by simp

text \<open>
  Claim C7, as stated, fails: a blank message is not always answered with 400. With a key
  configured and no header, the whitespace-only message is answered with 401; the empty
  message does not validate against \<open>ChatRequest\<close> (\<open>min_length=1\<close>) and is answered
  with 422. In both cases nothing else has happened.
\<close>

theorem blank_message_not_always_400:
  "py_strip (message blank_request) = []
   \<and> wordpress_chat keyed_env blank_request
       = ([], Inl (HTTPException 401 ''Invalid or missing API key''))
   \<and> status_code (HTTPException 401 ''Invalid or missing API key'') = 401
   \<and> py_strip (message empty_request) = []
   \<and> wordpress_chat open_env empty_request = ([], Inl RequestValidationError)
   \<and> status_code RequestValidationError = 422"
  by code_simp

text \<open>
  Claim C7, amended. A request whose message is empty after stripping is rejected before
  any retrieval, council stage or storage call (the handler has had no effect), with 422
  when the body does not validate, otherwise with 401 when the API-key check fails, and
  otherwise with the 400 error \<open>Message cannot be empty\<close>.
\<close>

theorem blank_message_rejected_first:
  assumes "py_strip (message req) = []"
  shows "wordpress_chat ev req =
     ([], Inl (if \<not> request_valid req then RequestValidationError
               else if validate_api_key (WP_API_KEY ev) (x_api_key req) = Inr ()
                    then HTTPException 400 ''Message cannot be empty''
                    else HTTPException 401 ''Invalid or missing API key''))"
  using assms
  by (auto simp: wordpress_chat_def validate_api_key_def Let_def split: sum.splits)

theorem blank_message_rejected_first_witness:
  "py_strip (message blank_request) = []
   \<and> wordpress_chat open_env blank_request
       = ([], Inl (HTTPException 400 ''Message cannot be empty''))"
proof -
  have h: "py_strip (message blank_request) = []" by code_simp
  have v: "request_valid blank_request" by code_simp
  have k: "validate_api_key (WP_API_KEY open_env) (x_api_key blank_request) = Inr ()"
    by code_simp
  from blank_message_rejected_first[OF h, of open_env] v k h show ?thesis by simp
qed

text \<open>
  Claim C8. When the endpoint answers, retrieval returned a merged chunk list, and the
  response has one citation per chunk in the same order: the citation's source is the
  chunk's source label (\<open>Unknown\<close> when absent) and its excerpt the first 200 characters of
  the chunk's content, so the whole content when that has at most 200 characters.
\<close>

theorem citations_follow_chunks:
  assumes "snd (wordpress_chat ev req) = Inr resp"
  shows "\<exists>chunks.
           retrieve_context (search_vortex ev) (search_notion ev) (py_strip (message req))
             = Inr chunks
         \<and> length (sources resp) = length chunks
         \<and> (\<forall>i<length chunks.
               cited_source (sources resp ! i)
                 = (case source (chunks ! i) of Some s \<Rightarrow> s | None \<Rightarrow> ''Unknown'')
             \<and> excerpt (sources resp ! i)
                 = take 200 (case content (chunks ! i) of Some c \<Rightarrow> c | None \<Rightarrow> [])
             \<and> (\<forall>c. content (chunks ! i) = Some c \<and> length c \<le> 200
                      \<longrightarrow> excerpt (sources resp ! i) = c))"
proof -
  let ?q = "py_strip (message req)"
  from assms obtain chunks r where
    ctx: "retrieve_context (search_vortex ev) (search_notion ev) ?q = Inr chunks"
    and resp: "sources resp = map build_citation chunks"
    by (auto simp: wordpress_chat_def retrieve_and_build_messages_def Let_def
             split: if_splits sum.splits prod.splits)
  have "cited_source (sources resp ! i)
                 = (case source (chunks ! i) of Some s \<Rightarrow> s | None \<Rightarrow> ''Unknown'')
             \<and> excerpt (sources resp ! i)
                 = take 200 (case content (chunks ! i) of Some c \<Rightarrow> c | None \<Rightarrow> [])
             \<and> (\<forall>c. content (chunks ! i) = Some c \<and> length c \<le> 200
                      \<longrightarrow> excerpt (sources resp ! i) = c)" if "i < length chunks" for i
    using that by (simp add: resp build_citation_def)
  with ctx resp show ?thesis by auto
qed

theorem citations_follow_chunks_witness:
  "\<exists>resp. snd (wordpress_chat open_env question_request) = Inr resp
     \<and> retrieve_context (search_vortex open_env) (search_notion open_env)
          (py_strip (message question_request))
         = Inr [primary_chunk, long_chunk, supplementary_chunk]
     \<and> length (sources resp) = 3
     \<and> cited_source (sources resp ! 0) = ''CCC 420''
     \<and> excerpt (sources resp ! 0) = ''Section 420: wrongful acts''
     \<and> cited_source (sources resp ! 1) = ''Unknown''
     \<and> excerpt (sources resp ! 1) = replicate 200 (CHR ''x'')
     \<and> cited_source (sources resp ! 2) = ''Notion: Torts''"
proof -
  have q: "py_strip (message question_request) = ''What is section 420?''" by code_simp
  have ne: "''What is section 420?'' \<noteq> []" by simp
  have v: "request_valid question_request" by code_simp
  have ctx: "retrieve_context (search_vortex open_env) (search_notion open_env)
          (py_strip (message question_request))
         = Inr [primary_chunk, long_chunk, supplementary_chunk]"
    by (simp add: retrieve_context_def open_env_def)
  obtain resp where resp: "snd (wordpress_chat open_env question_request) = Inr resp"
    using q v ctx
    by (simp add: wordpress_chat_def retrieve_and_build_messages_def Let_def
          validate_api_key_def open_env_def)
  from citations_follow_chunks[OF resp] ctx
  have len: "length (sources resp) = 3"
    and each: "\<And>i. i < 3 \<Longrightarrow>
       cited_source (sources resp ! i)
         = (case source ([primary_chunk, long_chunk, supplementary_chunk] ! i) of
              Some s \<Rightarrow> s | None \<Rightarrow> ''Unknown'')
       \<and> excerpt (sources resp ! i)
         = take 200 (case content ([primary_chunk, long_chunk, supplementary_chunk] ! i) of
                       Some c \<Rightarrow> c | None \<Rightarrow> [])"
    by auto
  have t: "take 200 (replicate 250 (CHR ''x'')) = replicate 200 (CHR ''x'')" by simp
  from each[of 0] each[of 1] each[of 2] len resp ctx show ?thesis
    by (intro exI[of _ resp])
       (simp add: primary_chunk_def long_chunk_def supplementary_chunk_def t)
qed

section \<open>Properties of the rank aggregation\<close>

lemma ranking_points_at:
  assumes i: "i < length labels"
    and at: "map_of label_to_model (labels ! i) = Some m"
    and others: "\<And>j. j < length labels \<Longrightarrow> j \<noteq> i \<Longrightarrow> map_of label_to_model (labels ! j) \<noteq> Some m"
  shows "ranking_points label_to_model labels m = length labels - (i + 1) + 1"
proof -
  let ?N = "length labels"
  let ?f = "\<lambda>k. if map_of label_to_model (labels ! (k - 1)) = Some m then ?N - k + 1 else 0"
  have eq: "?f k = (if k = Suc i then ?N - k + 1 else 0)" if "k \<in> {1..<Suc ?N}" for k
  proof (cases "k = Suc i")
    case True
    with at show ?thesis by simp
  next
    case False
    with that have "k - 1 < ?N" "k - 1 \<noteq> i" by auto
    from others[OF this] False show ?thesis by simp
  qed
  have "ranking_points label_to_model labels m = (\<Sum>k = 1..<Suc ?N. ?f k)"
    by (simp only: ranking_points_def Let_def interv_sum_list_conv_sum_set_nat set_upt)
  also have "\<dots> = (\<Sum>k = 1..<Suc ?N. if k = Suc i then ?N - k + 1 else 0)"
    by (rule sum.cong) (use eq in auto)
  also have "\<dots> = ?N - Suc i + 1"
    using i by (auto simp: sum.delta)
  finally show ?thesis by simp
qed

lemma total_points_mset:
  assumes "mset stage2 = mset stage2'"
  shows "total_points stage2 label_to_model m = total_points stage2' label_to_model m"
proof -
  let ?g = "\<lambda>r. ranking_points label_to_model (ranked_labels r) m"
  have "sum_list (map ?g stage2) = sum_mset (image_mset ?g (mset stage2))"
    by (simp add: sum_mset_sum_list flip: mset_map)
  also have "\<dots> = sum_mset (image_mset ?g (mset stage2'))"
    by (simp add: assms)
  also have "\<dots> = sum_list (map ?g stage2')"
    by (simp add: sum_mset_sum_list flip: mset_map)
  finally show ?thesis by (simp add: total_points_def)
qed

lemma model_roster_entries:
  "map model (roster_entries stage2 label_to_model) = remdups (map snd label_to_model)"
  by (simp add: roster_entries_def comp_def)

lemma total_roster_entries:
  "e \<in> set (roster_entries stage2 label_to_model)
     \<Longrightarrow> total e = total_points stage2 label_to_model (model e)"
  by (auto simp: roster_entries_def)

lemma distinct_aggregate: "distinct (map model (aggregate stage2 label_to_model))"
proof -
  have "mset (map model (aggregate stage2 label_to_model))
          = mset (map model (roster_entries stage2 label_to_model))"
    by (simp add: aggregate_def)
  then have "distinct (map model (aggregate stage2 label_to_model))
          = distinct (map model (roster_entries stage2 label_to_model))"
    by (rule mset_eq_imp_distinct_iff)
  then show ?thesis by (simp add: model_roster_entries)
qed

lemma aggregate_descending:
  "sorted_wrt (\<lambda>a b. total b \<le> total a) (aggregate stage2 label_to_model)"
proof -
  have "sorted (map (\<lambda>e. - int (total e)) (aggregate stage2 label_to_model))"
    by (simp add: aggregate_def)
  then show ?thesis by (simp add: sorted_map)
qed

lemma aggregate_stable:
  "filter (\<lambda>e. total e = t) (aggregate stage2 label_to_model)
     = filter (\<lambda>e. total e = t) (roster_entries stage2 label_to_model)"
proof -
  have "filter (\<lambda>e. - int (total e) = - int t) (aggregate stage2 label_to_model)
     = filter (\<lambda>e. - int (total e) = - int t) (roster_entries stage2 label_to_model)"
    unfolding aggregate_def by (rule sort_key_stable)
  then show ?thesis by simp
qed

text \<open>
  Claim C1. For every list of rankings and every label-to-model mapping, the aggregation
  has exactly one entry per model of the mapping (the models that answered in stage 1):
  the models of its entries are distinct and are the models of the mapping. Each entry's
  total is the sum over all rankings of the model's points, where a ranking of \<open>N\<close> labels
  gives \<open>N - k + 1\<close> points to the model at the 1-indexed position \<open>k = i + 1\<close>. The entries
  are sorted by total descending, and the entries of any one total come in roster order,
  the order of the mapping. The result does not depend on the order in which the rankings
  arrived, and, being a function of its inputs, is the same on the same inputs.
\<close>

theorem aggregate_borda:
  "distinct (map model (aggregate stage2 label_to_model))
   \<and> set (map model (aggregate stage2 label_to_model)) = snd ` set label_to_model
   \<and> map total (aggregate stage2 label_to_model)
        = map (\<lambda>e. total_points stage2 label_to_model (model e)) (aggregate stage2 label_to_model)
   \<and> (i < length labels \<and> map_of label_to_model (labels ! i) = Some m
        \<and> (\<forall>j. j < length labels \<and> j \<noteq> i \<longrightarrow> map_of label_to_model (labels ! j) \<noteq> Some m)
        \<longrightarrow> ranking_points label_to_model labels m = length labels - (i + 1) + 1)
   \<and> total_points stage2 label_to_model m
        = sum_list (map (\<lambda>r. ranking_points label_to_model (ranked_labels r) m) stage2)
   \<and> sorted_wrt (\<lambda>a b. total b \<le> total a) (aggregate stage2 label_to_model)
   \<and> filter (\<lambda>e. total e = t) (aggregate stage2 label_to_model)
        = filter (\<lambda>e. total e = t) (roster_entries stage2 label_to_model)
   \<and> map model (roster_entries stage2 label_to_model) = remdups (map snd label_to_model)
   \<and> (mset stage2 = mset stage2' \<longrightarrow>
        aggregate stage2 label_to_model = aggregate stage2' label_to_model)"
proof -
  have models: "set (map model (aggregate stage2 label_to_model)) = snd ` set label_to_model"
    by (simp add: aggregate_def roster_entries_def image_image)
  have totals: "map total (aggregate stage2 label_to_model)
        = map (\<lambda>e. total_points stage2 label_to_model (model e)) (aggregate stage2 label_to_model)"
    by (rule map_cong[OF refl]) (simp add: aggregate_def total_roster_entries)
  have perm: "aggregate stage2 label_to_model = aggregate stage2' label_to_model"
    if "mset stage2 = mset stage2'"
    using total_points_mset[OF that] by (simp add: aggregate_def roster_entries_def)
  from distinct_aggregate models totals ranking_points_at aggregate_descending aggregate_stable
       model_roster_entries perm
  show ?thesis
    by (simp add: total_points_def)
qed

theorem aggregate_borda_witness:
  "aggregate symmetric_rankings two_labels
     = [\<lparr>model = ''M1'', total = 3\<rparr>, \<lparr>model = ''M2'', total = 3\<rparr>]
   \<and> aggregate (rev symmetric_rankings) two_labels = aggregate symmetric_rankings two_labels
   \<and> ranking_points two_labels [''Response B'', ''Response A''] ''M1'' = 1
   \<and> aggregate (third_ranking # symmetric_rankings) two_labels
     = [\<lparr>model = ''M2'', total = 5\<rparr>, \<lparr>model = ''M1'', total = 4\<rparr>]"
proof -
  have tie: "aggregate symmetric_rankings two_labels
     = [\<lparr>model = ''M1'', total = 3\<rparr>, \<lparr>model = ''M2'', total = 3\<rparr>]"
    by code_simp
  have three: "aggregate (third_ranking # symmetric_rankings) two_labels
     = [\<lparr>model = ''M2'', total = 5\<rparr>, \<lparr>model = ''M1'', total = 4\<rparr>]"
    by code_simp
  have "mset (rev symmetric_rankings) = mset symmetric_rankings" by simp
  with aggregate_borda[of "rev symmetric_rankings" two_labels 1
         "[''Response B'', ''Response A'']" "''M1''" 3 symmetric_rankings]
  have arrival: "aggregate (rev symmetric_rankings) two_labels = aggregate symmetric_rankings two_labels"
    by blast
  have h1: "(1::nat) < length [''Response B'', ''Response A'']" by simp
  have h2: "map_of two_labels ([''Response B'', ''Response A''] ! 1) = Some ''M1''"
    by (simp add: two_labels_def)
  have h3: "\<forall>j. j < length [''Response B'', ''Response A''] \<and> j \<noteq> 1
              \<longrightarrow> map_of two_labels ([''Response B'', ''Response A''] ! j) \<noteq> Some ''M1''"
  proof (intro allI impI)
    fix j :: nat
    assume "j < length [''Response B'', ''Response A''] \<and> j \<noteq> 1"
    then have "j = 0" by auto
    then show "map_of two_labels ([''Response B'', ''Response A''] ! j) \<noteq> Some ''M1''"
      by (simp add: two_labels_def)
  qed
  from aggregate_borda[of symmetric_rankings two_labels 1
         "[''Response B'', ''Response A'']" "''M1''" 0 symmetric_rankings] h1 h2 h3
  have pts: "ranking_points two_labels [''Response B'', ''Response A''] ''M1'' = 1"
    by simp
  from tie arrival pts three show ?thesis by simp
qed

end
